theory Spec2Isabelle
  imports Complex_Main
begin

text \<open>
  A shallow embedding of pyexchange: the order-book records of model.py with their
  \<open>inverse\<close>, and of okex.py the \<open>Order\<close> record, request signing, response validation,
  \<open>place_order\<close>, \<open>cancel_order\<close> and the trade-history stubs. Exceptions are values, the
  network is a parameter, and the requests sent are threaded through as state.
\<close>

section \<open>Errors\<close>

text \<open>
  Every \<^verbatim>\<open>raise\<close> of the source and every exception of a Python builtin that the
  modelled code can trigger is a value of \<open>error\<close>; a fallible operation returns
  \<open>error + 'a\<close> with \<open>Inl\<close> for the exception. \<open>Exception msg\<close> is the generic
  \<^verbatim>\<open>Exception(msg)\<close> that okex.py raises itself; \<open>RequestException\<close> stands for
  whatever the HTTP transport raises (time-out, refused connection).
\<close>

datatype error =
    Exception string
  | KeyError string
  | TypeError
  | ValueError
  | OverflowError
  | ZeroDivisionError
  | RequestException

section \<open>Domain model (model.py, and Order of okex.py)\<close>

subsection \<open>The numeric primitive\<close>

text \<open>
  Modelled from the spec: the fixed-point amount type \<^verbatim>\<open>Wad\<close> (package pymaker, not
  under src/). The spec treats it as "a given primitive with exact decimal semantics"
  that "supports add, subtract, multiply, divide, and reciprocal". The model takes the
  type as a parameter \<open>'w\<close> of class \<open>field\<close> (exact arithmetic); \<open>+\<close>, \<open>-\<close> and
  \<open>*\<close> are the field operations, \<^verbatim>\<open>Wad.from_number(1)\<close> is \<open>1\<close>, and division is
  written out below because a Python division by zero raises where HOL returns \<open>0\<close>.
\<close>

definition wad_div :: "'w::field \<Rightarrow> 'w \<Rightarrow> error + 'w" where
  "wad_div a b = (if b = 0 then Inl ZeroDivisionError else Inr (a / b))"

subsection \<open>BookItem and Book\<close>

record 'w BookItem =
  price :: 'w
  amount :: 'w

text \<open>
  \<^verbatim>\<open>BookItem(price=Wad.from_number(1) / self.price, amount=self.amount * self.price)\<close>:
  the keyword arguments are evaluated left to right, so the division comes first.
\<close>

definition item_inverse :: "('w::field) BookItem \<Rightarrow> error + 'w BookItem" where
  "item_inverse item =
     (case wad_div 1 (price item) of
        Inl e \<Rightarrow> Inl e
      | Inr p \<Rightarrow> Inr \<lparr>price = p, amount = amount item * price item\<rparr>)"




subsection \<open>Order\<close>

record 'w Order =
  order_id :: int
  timestamp :: int
  pair :: string
  is_sell :: bool
  order_price :: 'w
  order_amount :: 'w
  deal_amount :: 'w

text \<open>
  The fields \<^verbatim>\<open>price\<close> and \<^verbatim>\<open>amount\<close> of \<^verbatim>\<open>Order\<close> are \<open>order_price\<close> and
  \<open>order_amount\<close> here, the plain names being those of \<open>BookItem\<close>.
\<close>

definition remaining_buy_amount :: "('w::field) Order \<Rightarrow> 'w" where
  "remaining_buy_amount self =
     (if is_sell self then (order_amount self - deal_amount self) * order_price self
      else order_amount self - deal_amount self)"

definition remaining_sell_amount :: "('w::field) Order \<Rightarrow> 'w" where
  "remaining_sell_amount self =
     (if is_sell self then order_amount self - deal_amount self
      else (order_amount self - deal_amount self) * order_price self)"

text \<open>\<^verbatim>\<open>Order.__eq__\<close>; the argument is an \<^verbatim>\<open>Order\<close> by its type, so the assertion holds.\<close>

definition order_eq :: "'w Order \<Rightarrow> 'w Order \<Rightarrow> bool" where
  "order_eq self other = (order_id self = order_id other \<and> pair self = pair other)"

section \<open>Python values and builtins used by okex.py\<close>

text \<open>
  Strings are lists of bytes holding UTF-8 text; the builtins below are modelled on
  ASCII text (on other text Python's \<^verbatim>\<open>upper\<close>, \<^verbatim>\<open>int\<close> and \<^verbatim>\<open>repr\<close> look at
  code points, not bytes). Integers are unbounded, as in Python.

  A Python float is kept as the exact rational value of the double, or one of the three
  special values that \<^verbatim>\<open>json\<close> also parses; no floating-point arithmetic is modelled,
  and the text of a float (\<^verbatim>\<open>repr\<close>) is a parameter.
\<close>

datatype pyfloat = Finite rat | PosInf | NegInf | NaN

text \<open>
  The values that \<^verbatim>\<open>Response.json()\<close> can return: \<^verbatim>\<open>None\<close>, \<^verbatim>\<open>bool\<close>, \<^verbatim>\<open>int\<close>,
  \<^verbatim>\<open>float\<close>, \<^verbatim>\<open>str\<close>, \<^verbatim>\<open>list\<close> and \<^verbatim>\<open>dict\<close> with string keys. A dict is the list
  of its items in insertion order, with distinct keys.
\<close>

datatype pyval =
    PNone
  | PBool bool
  | PInt int
  | PFloat pyfloat
  | PStr string
  | PList "pyval list"
  | PDict "(string \<times> pyval) list"

subsection \<open>\<^verbatim>\<open>str\<close> and \<^verbatim>\<open>repr\<close>\<close>

function str_of_nat :: "nat \<Rightarrow> string" where
  "str_of_nat n =
     (if n < 10 then [''0123456789'' ! n]
      else str_of_nat (n div 10) @ [''0123456789'' ! (n mod 10)])"
  by pat_completeness auto
termination
  by (relation "measure id") auto

definition str_of_int :: "int \<Rightarrow> string" where
  "str_of_int i = (if i < 0 then CHR ''-'' # str_of_nat (nat (- i)) else str_of_nat (nat i))"

text \<open>
  \<^verbatim>\<open>repr\<close> of a string: the quote is the apostrophe (0x27) unless the string has an
  apostrophe and no double quote (0x22); the backslash (0x5C) and the chosen quote are
  escaped, tab, newline and carriage return are written \<^verbatim>\<open>\t \n \r\<close>, the other
  control characters \<^verbatim>\<open>\xhh\<close>.
\<close>

definition repr_char :: "char \<Rightarrow> char \<Rightarrow> string" where
  "repr_char q c =
     (if c = CHR 0x5C then [CHR 0x5C, CHR 0x5C]
      else if c = q then [CHR 0x5C, q]
      else if c = CHR 0x09 then [CHR 0x5C, CHR ''t'']
      else if c = CHR 0x0A then [CHR 0x5C, CHR ''n'']
      else if c = CHR 0x0D then [CHR 0x5C, CHR ''r'']
      else if (of_char c :: nat) < 32 \<or> (of_char c :: nat) = 127
        then [CHR 0x5C, CHR ''x'', ''0123456789abcdef'' ! (of_char c div 16),
              ''0123456789abcdef'' ! (of_char c mod 16)]
      else [c])"

definition py_repr_str :: "string \<Rightarrow> string" where
  "py_repr_str s =
     (let q = (if CHR 0x27 \<in> set s \<and> CHR 0x22 \<notin> set s then CHR 0x22 else CHR 0x27)
      in q # concat (map (repr_char q) s) @ [q])"

text \<open>\<^verbatim>\<open>sep.join(xs)\<close>\<close>

fun py_join :: "string \<Rightarrow> string list \<Rightarrow> string" where
  "py_join sep [] = []"
| "py_join sep [x] = x"
| "py_join sep (x # y # ys) = x @ sep @ py_join sep (y # ys)"

text \<open>\<^verbatim>\<open>repr(v)\<close>; \<open>fr\<close> is the text of a float.\<close>

primrec py_repr :: "(pyfloat \<Rightarrow> string) \<Rightarrow> pyval \<Rightarrow> string" where
  "py_repr fr PNone = ''None''"
| "py_repr fr (PBool b) = (if b then ''True'' else ''False'')"
| "py_repr fr (PInt i) = str_of_int i"
| "py_repr fr (PFloat f) = fr f"
| "py_repr fr (PStr s) = py_repr_str s"
| "py_repr fr (PList xs) = ''['' @ py_join '', '' (map (py_repr fr) xs) @ '']''"
| "py_repr fr (PDict kvs) =
     ''{'' @ py_join '', ''
              (map (\<lambda>(k, v). k @ '': '' @ v) (map (map_prod py_repr_str (py_repr fr)) kvs))
     @ ''}''"

text \<open>\<^verbatim>\<open>str(v)\<close>: a string is itself, every other value is its \<^verbatim>\<open>repr\<close>.\<close>

definition py_str :: "(pyfloat \<Rightarrow> string) \<Rightarrow> pyval \<Rightarrow> string" where
  "py_str fr v = (case v of PStr s \<Rightarrow> s | _ \<Rightarrow> py_repr fr v)"

text \<open>
  \<^verbatim>\<open>str(params)\<close> for a dict whose keys and values are strings, which is what every
  caller of \<^verbatim>\<open>_http_post\<close> passes; no float occurs, so the float text is never used.
\<close>

definition str_of_params :: "(string \<times> string) list \<Rightarrow> string" where
  "str_of_params params = py_str (\<lambda>_. []) (PDict (map (\<lambda>(k, v). (k, PStr v)) params))"

text \<open>\<^verbatim>\<open>str.upper\<close>\<close>

definition upper_char :: "char \<Rightarrow> char" where
  "upper_char c =
     (if 97 \<le> (of_char c :: nat) \<and> (of_char c :: nat) \<le> 122
      then char_of ((of_char c :: nat) - 32) else c)"

definition py_upper :: "string \<Rightarrow> string" where
  "py_upper s = map upper_char s"

subsection \<open>\<^verbatim>\<open>int\<close>\<close>

definition is_digit :: "char \<Rightarrow> bool" where
  "is_digit c = (48 \<le> (of_char c :: nat) \<and> (of_char c :: nat) \<le> 57)"

definition digit_value :: "char \<Rightarrow> nat" where
  "digit_value c = of_char c - 48"

definition py_isspace :: "char \<Rightarrow> bool" where
  "py_isspace c =
     ((9 \<le> (of_char c :: nat) \<and> (of_char c :: nat) \<le> 13) \<or> (of_char c :: nat) = 32)"

definition py_strip :: "string \<Rightarrow> string" where
  "py_strip s = rev (dropWhile py_isspace (rev (dropWhile py_isspace s)))"

text \<open>
  The digits of \<^verbatim>\<open>int(s)\<close> in base 10, after a first digit: digits, with single
  underscores allowed between two digits.
\<close>

fun parse_digits :: "string \<Rightarrow> nat \<Rightarrow> nat option" where
  "parse_digits [] acc = Some acc"
| "parse_digits [c] acc = (if is_digit c then Some (acc * 10 + digit_value c) else None)"
| "parse_digits (c # d # ds) acc =
     (if is_digit c then parse_digits (d # ds) (acc * 10 + digit_value c)
      else if c = CHR ''_'' \<and> is_digit d then parse_digits ds (acc * 10 + digit_value d)
      else None)"

definition parse_nat :: "string \<Rightarrow> nat option" where
  "parse_nat s =
     (case s of [] \<Rightarrow> None
      | c # cs \<Rightarrow> if is_digit c then parse_digits cs (digit_value c) else None)"

text \<open>\<^verbatim>\<open>int(s)\<close> for a string: surrounding white space, an optional sign, the digits.\<close>

definition int_of_str :: "string \<Rightarrow> error + int" where
  "int_of_str s =
     (case py_strip s of
        [] \<Rightarrow> Inl ValueError
      | c # cs \<Rightarrow>
          if c = CHR ''-'' then
            (case parse_nat cs of None \<Rightarrow> Inl ValueError | Some n \<Rightarrow> Inr (- int n))
          else if c = CHR ''+'' then
            (case parse_nat cs of None \<Rightarrow> Inl ValueError | Some n \<Rightarrow> Inr (int n))
          else
            (case parse_nat (c # cs) of None \<Rightarrow> Inl ValueError | Some n \<Rightarrow> Inr (int n)))"

text \<open>\<^verbatim>\<open>int(f)\<close> for a float truncates towards zero.\<close>

definition int_of_float :: "pyfloat \<Rightarrow> error + int" where
  "int_of_float f =
     (case f of
        Finite q \<Rightarrow> Inr (if q < 0 then - \<lfloor>- q\<rfloor> else \<lfloor>q\<rfloor>)
      | PosInf \<Rightarrow> Inl OverflowError
      | NegInf \<Rightarrow> Inl OverflowError
      | NaN \<Rightarrow> Inl ValueError)"

definition py_int :: "pyval \<Rightarrow> error + int" where
  "py_int v =
     (case v of
        PNone \<Rightarrow> Inl TypeError
      | PBool b \<Rightarrow> Inr (if b then 1 else 0)
      | PInt i \<Rightarrow> Inr i
      | PFloat f \<Rightarrow> int_of_float f
      | PStr s \<Rightarrow> int_of_str s
      | PList xs \<Rightarrow> Inl TypeError
      | PDict kvs \<Rightarrow> Inl TypeError)"

subsection \<open>Subscription and membership\<close>

text \<open>
  \<^verbatim>\<open>v[key]\<close> for a string key: a dict looks the key up and raises \<^verbatim>\<open>KeyError\<close>
  without it; a list and a string want an integer index, the other values are not
  subscriptable (\<^verbatim>\<open>TypeError\<close>).
\<close>

definition py_getitem :: "pyval \<Rightarrow> string \<Rightarrow> error + pyval" where
  "py_getitem v key =
     (case v of
        PDict kvs \<Rightarrow> (case map_of kvs key of None \<Rightarrow> Inl (KeyError key) | Some x \<Rightarrow> Inr x)
      | _ \<Rightarrow> Inl TypeError)"

fun contains_str :: "string \<Rightarrow> string \<Rightarrow> bool" where
  "contains_str needle [] = (needle = [])"
| "contains_str needle (c # cs) =
     (take (length needle) (c # cs) = needle \<or> contains_str needle cs)"

text \<open>
  \<^verbatim>\<open>key in v\<close> for a string key: a dict has the key, a list has an element equal to
  the string, a string has it as a substring; the other values are not containers
  (\<^verbatim>\<open>TypeError\<close>).
\<close>

definition py_contains :: "string \<Rightarrow> pyval \<Rightarrow> error + bool" where
  "py_contains key v =
     (case v of
        PDict kvs \<Rightarrow> Inr (key \<in> set (map fst kvs))
      | PList xs \<Rightarrow> Inr (PStr key \<in> set xs)
      | PStr s \<Rightarrow> Inr (contains_str key s)
      | _ \<Rightarrow> Inl TypeError)"

subsection \<open>\<^verbatim>\<open>urllib.parse.urlencode\<close>\<close>

text \<open>
  \<^verbatim>\<open>quote_plus\<close>: letters, digits and \<^verbatim>\<open>_.-~\<close> stay, a space becomes \<^verbatim>\<open>+\<close>, every
  other byte becomes \<^verbatim>\<open>%XX\<close> (Python 3.7 and later; before, \<^verbatim>\<open>~\<close> was
  quoted too).
\<close>

definition quote_char :: "char \<Rightarrow> string" where
  "quote_char c =
     (if c = CHR '' '' then ''+''
      else if (65 \<le> (of_char c :: nat) \<and> (of_char c :: nat) \<le> 90)
            \<or> (97 \<le> (of_char c :: nat) \<and> (of_char c :: nat) \<le> 122)
            \<or> is_digit c \<or> c \<in> set ''_.-~'' then [c]
      else [CHR ''%'', ''0123456789ABCDEF'' ! (of_char c div 16),
            ''0123456789ABCDEF'' ! (of_char c mod 16)])"

definition quote_plus :: "string \<Rightarrow> string" where
  "quote_plus s = concat (map quote_char s)"

definition urlencode :: "(string \<times> string) list \<Rightarrow> string" where
  "urlencode params = py_join ''&'' (map (\<lambda>(k, v). quote_plus k @ ''='' @ quote_plus v) params)"

section \<open>The exchange client (okex.py)\<close>

subsection \<open>The transport and the other collaborators\<close>

text \<open>
  What the client reads of a \<^verbatim>\<open>requests.Response\<close>: \<^verbatim>\<open>ok\<close>; the value of
  \<^verbatim>\<open>json()\<close>, \<open>None\<close> when it raises; and the text that pymaker's
  \<^verbatim>\<open>http_response_summary\<close> makes of the response.
\<close>

record response =
  ok :: bool
  json :: "pyval option"
  summary :: string

text \<open>
  A call of \<^verbatim>\<open>requests.get\<close> or \<^verbatim>\<open>requests.post\<close> with its keyword arguments;
  an argument that is not passed is \<open>None\<close>.
\<close>

record request =
  req_method :: string
  req_url :: string
  req_data :: "string option"
  req_headers :: "(string \<times> string) list option"
  req_timeout :: "pyfloat option"

record OKEXApi =
  api_server :: string
  api_key :: string
  secret_key :: string
  passphrase :: string
  timeout :: pyfloat

text \<open>
  The collaborators are parameters: \<^verbatim>\<open>hmac.new(key, msg, 'sha256').digest()\<close>,
  \<^verbatim>\<open>base64.b64encode\<close>, the text of a float, and the network, which answers a request
  given the requests sent before it, with a response or with an exception.
\<close>

record env =
  hmac_sha256 :: "string \<Rightarrow> string \<Rightarrow> string"
  b64encode :: "string \<Rightarrow> string"
  float_repr :: "pyfloat \<Rightarrow> string"
  server :: "request list \<Rightarrow> request \<Rightarrow> error + response"

text \<open>
  The state of the world is the list of the requests sent so far, oldest first; every
  operation of the client takes it and returns it with its result.
\<close>

definition requests_send ::
  "env \<Rightarrow> request \<Rightarrow> request list \<Rightarrow> (error + response) \<times> request list" where
  "requests_send env r sent = (server env sent r, sent @ [r])"

subsection \<open>Response validation, signing, GET and POST\<close>

text \<open>\<^verbatim>\<open>OKEXApi._result\<close>\<close>

definition result :: "response \<Rightarrow> bool \<Rightarrow> error + pyval" where
  "result r check_result =
     (if \<not> ok r then Inl (Exception (''OKCoin API invalid HTTP response: '' @ summary r))
      else case json r of
        None \<Rightarrow> Inl (Exception (''OKCoin API invalid JSON response: '' @ summary r))
      | Some data \<Rightarrow>
          if check_result then
            (case py_contains ''error_code'' data of
               Inl e \<Rightarrow> Inl e
             | Inr found \<Rightarrow>
                 if found
                 then Inl (Exception (''OKCoin API negative response: '' @ summary r))
                 else Inr data)
          else Inr data)"

text \<open>\<^verbatim>\<open>OKEXApi._get_server_timestamp\<close>: a GET with no headers and no time-out.\<close>

definition get_server_timestamp ::
  "env \<Rightarrow> OKEXApi \<Rightarrow> request list \<Rightarrow> (error + pyval) \<times> request list" where
  "get_server_timestamp env self sent =
     (case requests_send env
             \<lparr>req_method = ''GET'', req_url = api_server self @ ''/api/general/v3/time'',
              req_data = None, req_headers = None, req_timeout = None\<rparr> sent of
        (Inl e, sent') \<Rightarrow> (Inl e, sent')
      | (Inr r, sent') \<Rightarrow>
          (case result r False of
             Inl e \<Rightarrow> (Inl e, sent')
           | Inr data \<Rightarrow> (py_getitem data ''iso'', sent')))"

text \<open>
  The \<^verbatim>\<open>message\<close> of \<^verbatim>\<open>_okex_header\<close>:
  \<^verbatim>\<open>str(timestamp) + str.upper(method) + request_path + body\<close>.
\<close>

definition sign_message :: "env \<Rightarrow> pyval \<Rightarrow> string \<Rightarrow> string \<Rightarrow> string \<Rightarrow> string" where
  "sign_message env ts meth request_path body =
     py_str (float_repr env) ts @ py_upper meth @ request_path @ body"

text \<open>\<^verbatim>\<open>OKEXApi._okex_header\<close>; the header dict is the list of its items.\<close>

definition okex_header ::
  "env \<Rightarrow> OKEXApi \<Rightarrow> string \<Rightarrow> string \<Rightarrow> string \<Rightarrow> request list
   \<Rightarrow> (error + (string \<times> string) list) \<times> request list" where
  "okex_header env self meth request_path body sent =
     (case get_server_timestamp env self sent of
        (Inl e, sent') \<Rightarrow> (Inl e, sent')
      | (Inr ts, sent') \<Rightarrow>
          (let message = sign_message env ts meth request_path body;
               d = hmac_sha256 env (secret_key self) message;
               sign = b64encode env d
           in (Inr [(''Content-Type'', ''application/json''),
                    (''OK-ACCESS-KEY'', api_key self),
                    (''OK-ACCESS-SIGN'', sign),
                    (''OK-ACCESS-TIMESTAMP'', py_str (float_repr env) ts),
                    (''OK-ACCESS-PASSPHRASE'', passphrase self)], sent')))"

text \<open>\<^verbatim>\<open>OKEXApi._http_get\<close>; \<^verbatim>\<open>body\<close> keeps its default, the empty string.\<close>

definition http_get ::
  "env \<Rightarrow> OKEXApi \<Rightarrow> string \<Rightarrow> string \<Rightarrow> bool \<Rightarrow> request list
   \<Rightarrow> (error + pyval) \<times> request list" where
  "http_get env self resource params check_result sent =
     (let resource' = (if params \<noteq> [] then resource @ ''?'' @ params else resource);
          url = api_server self @ resource'
      in case okex_header env self ''GET'' resource' [] sent of
           (Inl e, sent') \<Rightarrow> (Inl e, sent')
         | (Inr header, sent') \<Rightarrow>
             (case requests_send env
                     \<lparr>req_method = ''GET'', req_url = url, req_data = None,
                      req_headers = Some header, req_timeout = Some (timeout self)\<rparr> sent' of
                (Inl e, sent'') \<Rightarrow> (Inl e, sent'')
              | (Inr r, sent'') \<Rightarrow> (result r check_result, sent'')))"

text \<open>
  \<^verbatim>\<open>OKEXApi._http_post\<close>: the arguments of \<^verbatim>\<open>requests.post\<close> are evaluated in
  order, \<^verbatim>\<open>data=urllib.parse.urlencode(params)\<close> before
  \<^verbatim>\<open>headers=self._okex_header('POST', resource, str(params))\<close>.
\<close>

definition http_post ::
  "env \<Rightarrow> OKEXApi \<Rightarrow> string \<Rightarrow> (string \<times> string) list \<Rightarrow> request list
   \<Rightarrow> (error + pyval) \<times> request list" where
  "http_post env self resource params sent =
     (let url = api_server self @ resource;
          data = urlencode params
      in case okex_header env self ''POST'' resource (str_of_params params) sent of
           (Inl e, sent') \<Rightarrow> (Inl e, sent')
         | (Inr header, sent') \<Rightarrow>
             (case requests_send env
                     \<lparr>req_method = ''POST'', req_url = url, req_data = Some data,
                      req_headers = Some header, req_timeout = Some (timeout self)\<rparr> sent' of
                (Inl e, sent'') \<Rightarrow> (Inl e, sent'')
              | (Inr r, sent'') \<Rightarrow> (result r True, sent'')))"

subsection \<open>Operations\<close>


text \<open>\<^verbatim>\<open>OKEXApi.cancel_order\<close>\<close>

definition cancel_order ::
  "env \<Rightarrow> OKEXApi \<Rightarrow> string \<Rightarrow> int \<Rightarrow> request list \<Rightarrow> (error + bool) \<times> request list" where
  "cancel_order env self pair' order_id' sent =
     (case http_post env self (''/api/spot/v3/cancel_orders/'' @ str_of_int order_id')
             [(''instrument_id'', pair')] sent of
        (Inl e, sent') \<Rightarrow> (Inl e, sent')
      | (Inr res, sent') \<Rightarrow>
          (case py_getitem res ''order_id'' of
             Inl e \<Rightarrow> (Inl e, sent')
           | Inr v \<Rightarrow>
               (case py_int v of
                  Inl e \<Rightarrow> (Inl e, sent')
                | Inr echoed \<Rightarrow> (Inr (echoed = order_id'), sent'))))"

text \<open>\<^verbatim>\<open>OKEXApi.get_trades\<close> and \<^verbatim>\<open>OKEXApi.get_all_trades\<close>: two assertions, then the raise.\<close>

definition get_trades ::
  "env \<Rightarrow> OKEXApi \<Rightarrow> string \<Rightarrow> int \<Rightarrow> request list \<Rightarrow> (error + pyval) \<times> request list" where
  "get_trades env self pair' page_number sent =
     (Inl (Exception ''get_trades() not available for OKEX''), sent)"

definition get_all_trades ::
  "env \<Rightarrow> OKEXApi \<Rightarrow> string \<Rightarrow> int \<Rightarrow> request list \<Rightarrow> (error + pyval) \<times> request list" where
  "get_all_trades env self pair' page_number sent =
     (Inl (Exception ''get_trades() not available for OKEX''), sent)"

text \<open>\<^verbatim>\<open>OKEXApi._create_signature\<close>; it is called by nothing in the repository.\<close>

definition create_signature ::
  "env \<Rightarrow> pyval \<Rightarrow> string \<Rightarrow> string \<Rightarrow> pyval \<Rightarrow> string \<Rightarrow> string" where
  "create_signature env ts meth request_path body key =
     (let body' = (if py_str (float_repr env) body = ''{}''
                      \<or> py_str (float_repr env) body = ''None''
                   then PStr [] else body);
          message = py_str (float_repr env) ts @ py_upper meth @ request_path
                    @ py_str (float_repr env) body';
          d = hmac_sha256 env key message
      in b64encode env d)"

subsection \<open>A scripted exchange for concrete runs\<close>

text \<open>
  An environment whose digest and encoding keep the message readable, and whose server
  answers every GET with the time \<open>T\<close> and every POST with the given reply.
\<close>

definition demo_response :: "bool \<Rightarrow> pyval option \<Rightarrow> response" where
  "demo_response is_ok parsed = \<lparr>ok = is_ok, json = parsed, summary = ''summary''\<rparr>"

definition demo_env :: "pyval \<Rightarrow> env" where
  "demo_env reply =
     \<lparr>hmac_sha256 = (\<lambda>key msg. key @ ''/'' @ msg),
      b64encode = (\<lambda>d. d),
      float_repr = (\<lambda>f. ''float''),
      server = (\<lambda>sent r. Inr (demo_response True
                                  (Some (if req_method r = ''GET''
                                         then PDict [(''iso'', PStr ''T'')] else reply))))\<rparr>"

definition demo_api :: OKEXApi where
  "demo_api = \<lparr>api_server = ''https://x'', api_key = ''k'', secret_key = ''s'',
               passphrase = ''p'', timeout = Finite 10\<rparr>"

section \<open>Properties of the domain model\<close>


lemma item_inverse_zero: "price item = 0 \<Longrightarrow> item_inverse item = Inl ZeroDivisionError"
  by (simp add: item_inverse_def wad_div_def)








text \<open>
  C5. For every order, \<open>remaining_buy_amount\<close> is \<open>(amount - deal_amount) * price\<close> for
  a sell order and \<open>amount - deal_amount\<close> otherwise, and \<open>remaining_sell_amount\<close> is
  \<open>amount - deal_amount\<close> for a sell order and \<open>(amount - deal_amount) * price\<close>
  otherwise; a sell order with amount 10, deal amount 3 and price 2 has remaining sell
  amount 7 and remaining buy amount 14.
\<close>

theorem C5_remaining_amounts:
  fixes self :: "('w::field) Order"
  shows "remaining_buy_amount self
           = (if is_sell self then (order_amount self - deal_amount self) * order_price self
              else order_amount self - deal_amount self)
         \<and> remaining_sell_amount self
           = (if is_sell self then order_amount self - deal_amount self
              else (order_amount self - deal_amount self) * order_price self)
         \<and> remaining_sell_amount
             \<lparr>order_id = i, timestamp = t, pair = p, is_sell = True,
              order_price = 2 :: 'w, order_amount = 10, deal_amount = 3\<rparr> = 7
         \<and> remaining_buy_amount
             \<lparr>order_id = i, timestamp = t, pair = p, is_sell = True,
              order_price = 2 :: 'w, order_amount = 10, deal_amount = 3\<rparr> = 14"
  by (simp add: remaining_buy_amount_def remaining_sell_amount_def)

text \<open>
  C8. Two orders compare equal exactly when their \<open>order_id\<close> and \<open>pair\<close> agree; in
  particular an order equals every order that differs from it only in timestamp, side,
  price, amount and deal amount.
\<close>

theorem C8_order_eq:
  "(order_eq a b \<longleftrightarrow> order_id a = order_id b \<and> pair a = pair b)
   \<and> order_eq a (a\<lparr>timestamp := t, is_sell := s, order_price := p,
                    order_amount := m, deal_amount := d\<rparr>)"
  by (simp add: order_eq_def)

section \<open>Properties of signing and of response validation\<close>

text \<open>
  C10. In \<open>_create_signature\<close>, a body whose \<open>str\<close> is exactly \<open>{}\<close> or \<open>None\<close> is
  replaced by the empty string before signing: for every timestamp, method, path and
  key the signature is the one computed with an empty body, that is the encoded digest
  of timestamp, upper-cased method and path alone.
\<close>

theorem C10_create_signature_empty_body:
  assumes "py_str (float_repr env) body = ''{}'' \<or> py_str (float_repr env) body = ''None''"
  shows "create_signature env ts meth request_path body key
           = create_signature env ts meth request_path (PStr []) key
         \<and> create_signature env ts meth request_path body key
           = b64encode env (hmac_sha256 env key
               (py_str (float_repr env) ts @ py_upper meth @ request_path))"
  using assms by (auto simp add: create_signature_def Let_def py_str_def)

lemma py_upper_get: "py_upper ''get'' = ''GET''"
  by code_simp

theorem C10_create_signature_empty_body_witness:
  "create_signature (demo_env PNone) (PStr ''T'') ''get'' ''/p'' (PDict []) ''s'' = ''s/TGET/p''
   \<and> create_signature (demo_env PNone) (PStr ''T'') ''get'' ''/p'' PNone ''s'' = ''s/TGET/p''
   \<and> create_signature (demo_env PNone) (PStr ''T'') ''get'' ''/p'' (PStr ''{}'') ''s''
       = ''s/TGET/p''"
  using
    C10_create_signature_empty_body
      [of "demo_env PNone" "PDict []" "PStr ''T''" "''get''" "''/p''" "''s''",
       THEN conjunct2]
    C10_create_signature_empty_body
      [of "demo_env PNone" "PNone" "PStr ''T''" "''get''" "''/p''" "''s''",
       THEN conjunct2]
    C10_create_signature_empty_body
      [of "demo_env PNone" "PStr ''{}''" "PStr ''T''" "''get''" "''/p''" "''s''",
       THEN conjunct2]
  by (simp add: py_str_def demo_env_def py_upper_get)

text \<open>
  C9, as stated, fails: a response with a success status whose body is the valid JSON
  text \<open>null\<close> has no error-code field, and with result checking the call fails with a
  \<open>TypeError\<close> (\<open>'error_code' in None\<close>) instead of returning the parsed data.
\<close>

theorem C9_result_counterexample:
  "ok (demo_response True (Some PNone))
   \<and> json (demo_response True (Some PNone)) = Some PNone
   \<and> py_contains ''error_code'' PNone = Inl TypeError
   \<and> result (demo_response True (Some PNone)) True = Inl TypeError"
  by (simp add: demo_response_def result_def py_contains_def py_getitem_def)

text \<open>
  C9, amended. A response whose status is not a success fails with an error; a success
  whose body is not valid JSON fails with an error; with result checking, a parsed JSON
  object that has the key \<open>error_code\<close> fails with an error; and the parsed data is
  returned when result checking was not requested, or the parsed body is a JSON object
  without the key \<open>error_code\<close>, an array none of whose elements is the string
  \<open>error_code\<close>, or a string that does not contain \<open>error_code\<close>.
\<close>

theorem C9_result_cases:
  "(\<not> ok r \<longrightarrow>
      result r c = Inl (Exception (''OKCoin API invalid HTTP response: '' @ summary r)))
   \<and> (ok r \<and> json r = None \<longrightarrow>
      result r c = Inl (Exception (''OKCoin API invalid JSON response: '' @ summary r)))
   \<and> (ok r \<and> json r = Some (PDict kvs) \<and> c \<and> ''error_code'' \<in> fst ` set kvs \<longrightarrow>
      result r c = Inl (Exception (''OKCoin API negative response: '' @ summary r)))
   \<and> (ok r \<and> json r = Some data
        \<and> (\<not> c
           \<or> (\<exists>kvs. data = PDict kvs \<and> ''error_code'' \<notin> fst ` set kvs)
           \<or> (\<exists>xs. data = PList xs \<and> PStr ''error_code'' \<notin> set xs)
           \<or> (\<exists>s. data = PStr s \<and> \<not> contains_str ''error_code'' s)) \<longrightarrow>
      result r c = Inr data)"
  by (auto simp add: result_def py_contains_def)

theorem C9_result_cases_witness:
  "result (demo_response False (Some (PDict []))) True
     = Inl (Exception ''OKCoin API invalid HTTP response: summary'')
   \<and> result (demo_response True None) True
     = Inl (Exception ''OKCoin API invalid JSON response: summary'')
   \<and> result (demo_response True (Some (PDict [(''error_code'', PInt 30001)]))) True
     = Inl (Exception ''OKCoin API negative response: summary'')
   \<and> result (demo_response True (Some (PDict [(''error_code'', PInt 30001)]))) False
     = Inr (PDict [(''error_code'', PInt 30001)])
   \<and> result (demo_response True (Some (PDict [(''order_id'', PStr ''8'')]))) True
     = Inr (PDict [(''order_id'', PStr ''8'')])
   \<and> result (demo_response True (Some (PList []))) True = Inr (PList [])"
  using C9_result_cases [of "demo_response False (Some (PDict []))" True]
    C9_result_cases [of "demo_response True None" True]
    C9_result_cases [of "demo_response True (Some (PDict [(''error_code'', PInt 30001)]))" True
      "[(''error_code'', PInt 30001)]"]
    C9_result_cases [of "demo_response True (Some (PDict [(''error_code'', PInt 30001)]))" False
      _ "PDict [(''error_code'', PInt 30001)]"]
    C9_result_cases [of "demo_response True (Some (PDict [(''order_id'', PStr ''8'')]))" True
      _ "PDict [(''order_id'', PStr ''8'')]"]
    C9_result_cases [of "demo_response True (Some (PList []))" True _ "PList []"]
  by (simp add: demo_response_def)

section \<open>Properties of the exchange client\<close>

text \<open>
  C2. For every pair string and every page number, \<open>get_trades\<close> and
  \<open>get_all_trades\<close> end with the exception "get_trades() not available for OKEX" and
  never with a value, and the list of requests sent is unchanged: no request is issued.
\<close>

theorem C2_trades_unsupported:
  "get_trades env self p n sent = (Inl (Exception ''get_trades() not available for OKEX''), sent)
   \<and> get_all_trades env self p n sent
       = (Inl (Exception ''get_trades() not available for OKEX''), sent)"
  by (simp add: get_trades_def get_all_trades_def)

lemma cancel_order_cases:
  "cancel_order env self p oid sent =
     (case http_post env self (''/api/spot/v3/cancel_orders/'' @ str_of_int oid)
             [(''instrument_id'', p)] sent of
        (Inl e, sent') \<Rightarrow> (Inl e, sent')
      | (Inr res, sent') \<Rightarrow>
          (case py_getitem res ''order_id'' of
             Inl e \<Rightarrow> (Inl e, sent')
           | Inr v \<Rightarrow>
               (case py_int v of
                  Inl e \<Rightarrow> (Inl e, sent')
                | Inr echoed \<Rightarrow> (Inr (echoed = oid), sent'))))"
  by (simp add: cancel_order_def)

text \<open>
  C6. \<open>cancel_order\<close> returns a boolean exactly when the POST returned a response that
  passed validation and whose \<open>order_id\<close> entry converts to an integer, and the boolean
  says whether that integer equals the requested order id; when the echoed id differs
  the result is \<open>False\<close>, not an exception.
\<close>

theorem C6_cancel_order_result:
  "(fst (cancel_order env self p oid sent) = Inr b \<longleftrightarrow>
      (\<exists>res v n.
          fst (http_post env self (''/api/spot/v3/cancel_orders/'' @ str_of_int oid)
                 [(''instrument_id'', p)] sent) = Inr res
          \<and> py_getitem res ''order_id'' = Inr v \<and> py_int v = Inr n \<and> b = (n = oid)))
   \<and> (fst (http_post env self (''/api/spot/v3/cancel_orders/'' @ str_of_int oid)
              [(''instrument_id'', p)] sent) = Inr res
        \<and> py_getitem res ''order_id'' = Inr v \<and> py_int v = Inr n \<and> n \<noteq> oid \<longrightarrow>
      fst (cancel_order env self p oid sent) = Inr False)"
  unfolding cancel_order_cases
  by (auto split: prod.splits sum.splits)

lemma py_int_demo: "py_int (PStr ''8'') = Inr 8" "py_int (PStr ''abc'') = Inl ValueError"
  "py_int (PBool True) = Inr 1"
  by code_simp+

lemma http_post_demo:
  "py_contains ''error_code'' reply = Inr False \<Longrightarrow>
   fst (http_post (demo_env reply) demo_api resource params sent) = Inr reply"
  by (simp add: http_post_def okex_header_def get_server_timestamp_def requests_send_def
      demo_env_def demo_response_def result_def py_getitem_def Let_def)

theorem C6_cancel_order_result_witness:
  "fst (cancel_order (demo_env (PDict [(''order_id'', PStr ''8''), (''result'', PBool True)]))
          demo_api ''BTC-USDT'' 7 []) = Inr False
   \<and> fst (cancel_order (demo_env (PDict [(''order_id'', PStr ''8''), (''result'', PBool True)]))
          demo_api ''BTC-USDT'' 8 []) = Inr True"
  using C6_cancel_order_result
      [of "demo_env (PDict [(''order_id'', PStr ''8''), (''result'', PBool True)])"
          demo_api "''BTC-USDT''" 7 "[]" False]
    C6_cancel_order_result
      [of "demo_env (PDict [(''order_id'', PStr ''8''), (''result'', PBool True)])"
          demo_api "''BTC-USDT''" 8 "[]" True]
  by (simp add: http_post_demo py_contains_def py_getitem_def py_int_demo)




lemma str_of_params_brace: "\<exists>t. str_of_params params = CHR ''{'' # t"
  by (simp add: str_of_params_def py_str_def)

lemma quote_char_hd: "quote_char c \<noteq> [] \<and> hd (quote_char c) \<noteq> CHR ''{''"
  by (auto simp add: quote_char_def is_digit_def)

lemma quote_plus_hd: "s \<noteq> [] \<Longrightarrow> quote_plus s \<noteq> [] \<and> hd (quote_plus s) \<noteq> CHR ''{''"
  using quote_char_hd [of "hd s"]
  by (cases s) (simp_all add: quote_plus_def)

lemma py_join_hd: "x \<noteq> [] \<Longrightarrow> hd (py_join sep (x # xs)) = hd x"
  by (cases xs) simp_all

lemma urlencode_no_brace: "urlencode params \<noteq> CHR ''{'' # t"
proof (cases params)
  case Nil
  then show ?thesis by (simp add: urlencode_def)
next
  case (Cons kv rest)
  obtain k v where kv: "kv = (k, v)" by (cases kv)
  let ?x = "quote_plus k @ ''='' @ quote_plus v"
  have "hd ?x \<noteq> CHR ''{''"
    using quote_plus_hd [of k] by (cases "k = []") (simp_all add: quote_plus_def)
  moreover have "hd (urlencode params) = hd ?x"
    using py_join_hd [of ?x "''&''"] by (simp add: urlencode_def Cons kv)
  ultimately show ?thesis by auto
qed

lemma str_of_params_neq_urlencode: "str_of_params params \<noteq> urlencode params"
  using str_of_params_brace [of params] urlencode_no_brace [of params] by metis

lemma py_upper_post: "py_upper ''POST'' = ''POST''"
  by code_simp

text \<open>
  C1. The signed message is \<open>timestamp + upper(method) + request_path + body\<close> and the
  \<open>OK-ACCESS-SIGN\<close> header is the encoded digest of it, but for a POST request the
  \<open>body\<close> that is signed is \<open>str(params)\<close>, the text of the Python dict, while the
  HTTP body that is sent is \<open>urlencode(params)\<close>; the two texts differ for every
  \<open>params\<close>, so the signed payload is never the payload that is sent.
\<close>

theorem C1_post_signs_other_body:
  assumes "get_server_timestamp env self sent = (Inr ts, sent')"
  shows "(\<exists>r.
            snd (http_post env self resource params sent) = sent' @ [r]
            \<and> req_method r = ''POST''
            \<and> req_data r = Some (urlencode params)
            \<and> (\<exists>h. req_headers r = Some h
                   \<and> map_of h ''OK-ACCESS-SIGN''
                       = Some (b64encode env (hmac_sha256 env (secret_key self)
                           (py_str (float_repr env) ts @ ''POST'' @ resource
                            @ str_of_params params)))))
         \<and> str_of_params params \<noteq> urlencode params"
  using assms str_of_params_neq_urlencode [of params]
  by (auto simp add: http_post_def okex_header_def sign_message_def requests_send_def Let_def
      py_upper_post split: prod.splits sum.splits)

lemma demo_params_texts:
  "urlencode [(''instrument_id'', ''BTC-USDT'')] = ''instrument_id=BTC-USDT''"
  "str_of_params [(''instrument_id'', ''BTC-USDT'')]
     = ''{'' @ [CHR 0x27] @ ''instrument_id'' @ [CHR 0x27] @ '': '' @ [CHR 0x27] @ ''BTC-USDT''
       @ [CHR 0x27] @ ''}''"
  by code_simp+

lemma get_server_timestamp_demo:
  "get_server_timestamp (demo_env reply) demo_api sent
     = (Inr (PStr ''T''),
        sent @ [\<lparr>req_method = ''GET'', req_url = ''https://x/api/general/v3/time'',
                 req_data = None, req_headers = None, req_timeout = None\<rparr>])"
  by (simp add: get_server_timestamp_def requests_send_def demo_env_def demo_response_def
      demo_api_def result_def py_getitem_def)

theorem C1_post_signs_other_body_witness:
  "(\<exists>r.
      snd (http_post (demo_env PNone) demo_api ''/api/spot/v3/cancel_orders/7''
             [(''instrument_id'', ''BTC-USDT'')] [])
        = [\<lparr>req_method = ''GET'', req_url = ''https://x/api/general/v3/time'',
             req_data = None, req_headers = None, req_timeout = None\<rparr>, r]
      \<and> req_method r = ''POST''
      \<and> req_data r = Some ''instrument_id=BTC-USDT''
      \<and> (\<exists>h. req_headers r = Some h
             \<and> map_of h ''OK-ACCESS-SIGN''
                 = Some (''s/TPOST/api/spot/v3/cancel_orders/7{'' @ [CHR 0x27] @ ''instrument_id''
                         @ [CHR 0x27] @ '': '' @ [CHR 0x27] @ ''BTC-USDT'' @ [CHR 0x27]
                         @ ''}'')))
   \<and> str_of_params [(''instrument_id'', ''BTC-USDT'')]
       \<noteq> urlencode [(''instrument_id'', ''BTC-USDT'')]"
  using C1_post_signs_other_body
      [where env = "demo_env PNone" and self = demo_api and sent = "[]"
         and resource = "''/api/spot/v3/cancel_orders/7''"
         and params = "[(''instrument_id'', ''BTC-USDT'')]", OF get_server_timestamp_demo]
  by (simp add: demo_params_texts demo_env_def demo_api_def py_str_def)

text \<open>
  For a GET request the signed body is the empty string: the message is the timestamp,
  \<open>GET\<close> and the request path with its query.
\<close>

lemma py_upper_GET_fixed: "py_upper ''GET'' = ''GET''"
  by code_simp

lemma http_get_signs_empty_body:
  assumes "get_server_timestamp env self sent = (Inr ts, sent')"
  shows "\<exists>r. snd (http_get env self resource params check_result sent) = sent' @ [r]
           \<and> req_method r = ''GET'' \<and> req_data r = None
           \<and> (\<exists>h. req_headers r = Some h
                  \<and> map_of h ''OK-ACCESS-SIGN''
                      = Some (b64encode env (hmac_sha256 env (secret_key self)
                          (py_str (float_repr env) ts @ ''GET''
                           @ (if params \<noteq> [] then resource @ ''?'' @ params else resource)))))"
  using assms
  by (auto simp add: http_get_def okex_header_def sign_message_def requests_send_def Let_def
      py_upper_GET_fixed split: prod.splits sum.splits)

end
